theory Spec2Isabelle
  imports Main "HOL-Library.Char_ord" "HOL-Library.List_Lexorder"
begin

unbundle bit_operations_syntax

section \<open>Entries (lib/entry.js)\<close>

text \<open>
  JavaScript strings are compared with \<open><\<close> and \<open>></\<close> code unit by code unit; paths are
  modelled as \<open>string\<close> with the lexicographic order on characters.  Numbers are integers;
  the only non-number that the code produces by itself is the \<open>NaN\<close> that unary plus makes
  of an absent \<open>mtime\<close>, modelled as \<open>None\<close>.
\<close>

datatype mtime_value = MNumber int | MDate int | MUndefined

text \<open>
  The \<open>_symlink\<close> field of an entry: \<open>{ external: target }\<close> or a find result
  \<open>{ tree, entry }\<close>, whose entry is \<open>Entry.ROOT\<close> for every directory link.  Trees are
  referred to by a handle.
\<close>

datatype link_target = TargetRoot | TargetEntry string

datatype link = External string | Internal nat link_target

record entry =
  relativePath :: string
  fsize :: "int option"
  mtime :: mtime_value
  mode :: nat
  checksum :: "string option"
  symlink :: "link option"
  linkDir :: bool

definition DIRECTORY_MODE :: nat where
  "DIRECTORY_MODE = 16895" \<comment> \<open>0o40777\<close>

definition FILE_MODE :: nat where
  "FILE_MODE = 33279" \<comment> \<open>0o100777\<close>

definition isSymbolicLink :: "entry \<Rightarrow> bool" where
  "isSymbolicLink e = (symlink e \<noteq> None)"

text \<open>\<open>(entry.mode & 0o170000) === 0o40000\<close>, or a link whose entry is \<open>Entry.ROOT\<close>.\<close>

definition isDirectory :: "entry \<Rightarrow> bool" where
  "isDirectory e =
     (case symlink e of
        Some l \<Rightarrow> (case l of Internal t TargetRoot \<Rightarrow> True | _ \<Rightarrow> False)
      | None \<Rightarrow> mode e AND 61440 = 16384)"

definition isFile :: "entry \<Rightarrow> bool" where
  "isFile e = (\<not> isDirectory e)"

definition isSep :: "char \<Rightarrow> bool" where
  "isSep c = (c = CHR ''/'' \<or> c = CHR 0x5C)"

text \<open>\<open>path_.replace(/^(\/|\\)|(\/|\\)$/g, '')\<close>: one leading and one trailing separator.\<close>

definition chompLeadingAndTrailingSeparator :: "string \<Rightarrow> string" where
  "chompLeadingAndTrailingSeparator p =
     (let q = (case p of [] \<Rightarrow> [] | c # cs \<Rightarrow> if isSep c then cs else p)
      in if q \<noteq> [] \<and> isSep (last q) then butlast q else q)"

text \<open>The constructor: the path of a directory (by its mode) is chomped once.\<close>

definition Entry_new :: "string \<Rightarrow> int option \<Rightarrow> mtime_value \<Rightarrow> nat \<Rightarrow> string option \<Rightarrow> entry" where
  "Entry_new p sz mt md cs =
     \<lparr> relativePath = (if md AND 61440 = 16384 then chompLeadingAndTrailingSeparator p else p),
       fsize = sz, mtime = mt, mode = md, checksum = cs, symlink = None, linkDir = False \<rparr>"

definition fromPath :: "string \<Rightarrow> entry" where
  "fromPath p =
     Entry_new p None (MNumber 0)
       (if p \<noteq> [] \<and> last p = CHR ''/'' then DIRECTORY_MODE else FILE_MODE) None"

definition clone :: "entry \<Rightarrow> string \<Rightarrow> entry" where
  "clone e p = e\<lparr>relativePath := p\<rparr>"

section \<open>Shared helpers (lib/shared.js)\<close>

text \<open>\<open>path_.replace(TRAILING_SLASH_PATTERN, '')\<close> with \<open>path.sep = '/'\<close>.\<close>

definition chompSeparator :: "string \<Rightarrow> string" where
  "chompSeparator p = (if p \<noteq> [] \<and> last p = CHR ''/'' then butlast p else p)"

definition entryRelativePath :: "entry \<Rightarrow> string" where
  "entryRelativePath e =
     (if isDirectory e then chompSeparator (relativePath e) else relativePath e)"

definition comparePaths :: "string \<Rightarrow> string \<Rightarrow> int" where
  "comparePaths a b = (if a > b then 1 else if a < b then -1 else 0)"

definition compareEntries :: "entry \<Rightarrow> entry \<Rightarrow> int" where
  "compareEntries a b = comparePaths (relativePath a) (relativePath b)"

datatype operation = Mkdir | Create | Change | Rmdir | Unlink

type_synonym change = "operation \<times> string \<times> entry"

definition isRemove :: "change \<Rightarrow> bool" where
  "isRemove c = (fst c = Rmdir \<or> fst c = Unlink)"

definition compareChanges :: "change \<Rightarrow> change \<Rightarrow> int" where
  "compareChanges a b =
     (if isRemove a \<and> \<not> isRemove b then -1
      else if \<not> isRemove a \<and> isRemove b then 1
      else if isRemove a then - comparePaths (fst (snd a)) (fst (snd b))
      else comparePaths (fst (snd a)) (fst (snd b)))"

datatype error =
    NotSortedUnique nat
  | InvalidPath string
  | TreeStopped string
  | RootNotAllowed string
  | ENOENT string
  | ENOTDIR string
  | EISDIR string
  | EEXIST string
  | EPERM string
  | SymlinkCross string
  | IncompatibleFilters string
  | InvalidMatcher
  | ConflictingCapitalization string string
  | ConflictingFileType string
  | OverwriteRefused string

text \<open>The loop of \<open>validateSortedUnique\<close>, from \<open>i = 1\<close>: \<open>prev\<close> is \<open>entries[i - 1]\<close>.\<close>

fun validateSortedUnique_loop :: "nat \<Rightarrow> entry \<Rightarrow> entry list \<Rightarrow> error + unit" where
  "validateSortedUnique_loop i prev [] = Inr ()"
| "validateSortedUnique_loop i prev (cur # rest) =
     (if relativePath prev < relativePath cur then validateSortedUnique_loop (i + 1) cur rest
      else Inl (NotSortedUnique (i - 1)))"

definition validateSortedUnique :: "entry list \<Rightarrow> error + unit" where
  "validateSortedUnique entries =
     (case entries of [] \<Rightarrow> Inr () | e # rest \<Rightarrow> validateSortedUnique_loop 1 e rest)"

text \<open>
  \<open>_commonPrefix(a, b, term)\<close>: the loop stops at the first difference; \<open>endp\<close> is
  \<open>end + 1\<close>, the length of the prefix up to the last \<open>term\<close> seen.
\<close>

fun commonPrefix_loop :: "string \<Rightarrow> string \<Rightarrow> char \<Rightarrow> nat \<Rightarrow> nat \<Rightarrow> nat" where
  "commonPrefix_loop (x # xs) (y # ys) term i endp =
     (if x \<noteq> y then endp
      else commonPrefix_loop xs ys term (i + 1) (if x = term then i + 1 else endp))"
| "commonPrefix_loop _ _ term i endp = endp"

definition commonPrefix :: "string \<Rightarrow> string \<Rightarrow> char \<Rightarrow> string" where
  "commonPrefix a b term = take (commonPrefix_loop a b term 0 0) a"

text \<open>\<open>_basename\<close>: \<open>k\<close> is \<open>i + 1\<close> for the loop index \<open>i\<close> running down from \<open>length - 2\<close>.\<close>

fun basename_loop :: "string \<Rightarrow> nat \<Rightarrow> string" where
  "basename_loop p 0 = []"
| "basename_loop p (Suc k) = (if p ! k = CHR ''/'' then take (Suc k) p else basename_loop p k)"

definition basename :: "entry \<Rightarrow> string" where
  "basename e = (let p = entryRelativePath e in basename_loop p (length p - 1))"

fun computeImpliedEntries_loop :: "string \<Rightarrow> string \<Rightarrow> nat \<Rightarrow> nat \<Rightarrow> entry list" where
  "computeImpliedEntries_loop basePath rel i 0 = []"
| "computeImpliedEntries_loop basePath rel i (Suc n) =
     (if rel ! i = CHR ''/''
      then fromPath (basePath @ take (i + 1) rel) # computeImpliedEntries_loop basePath rel (i + 1) n
      else computeImpliedEntries_loop basePath rel (i + 1) n)"

definition computeImpliedEntries :: "string \<Rightarrow> string \<Rightarrow> entry list" where
  "computeImpliedEntries basePath rel = computeImpliedEntries_loop basePath rel 0 (length rel)"

text \<open>
  \<open>sortAndExpand\<close>: after the sort, each entry is preceded by the directories its path
  implies and that the running \<open>path_\<close> does not cover.
\<close>

fun sortAndExpand_loop :: "string \<Rightarrow> entry list \<Rightarrow> entry list" where
  "sortAndExpand_loop path0 [] = []"
| "sortAndExpand_loop path0 (e # rest) =
     (let path1 = commonPrefix path0 (relativePath e) (CHR ''/'');
          base = basename e;
          entryBaseSansCommon = drop (length path1) base;
          impliedEntries = computeImpliedEntries path1 entryBaseSansCommon;
          path2 = (if isDirectory e then relativePath e @ ''/'' else base)
      in impliedEntries @ e # sortAndExpand_loop path2 rest)"

definition sortAndExpand :: "entry list \<Rightarrow> entry list" where
  "sortAndExpand entries = sortAndExpand_loop [] (sort_key entryRelativePath entries)"

section \<open>ManualTree\<close>

text \<open>The constructor: \<open>sortAndExpand\<close> when the option is set, the validation otherwise.\<close>

definition ManualTree_new :: "entry list \<Rightarrow> bool \<Rightarrow> error + entry list" where
  "ManualTree_new entries sortAndExpandOpt =
     (if sortAndExpandOpt then Inr (sortAndExpand entries)
      else (case validateSortedUnique entries of Inl err \<Rightarrow> Inl err | Inr u \<Rightarrow> Inr entries))"

definition fromEntries :: "entry list \<Rightarrow> bool \<Rightarrow> error + entry list" where
  "fromEntries entries sortAndExpandOpt = ManualTree_new entries sortAndExpandOpt"

definition fromPaths :: "string list \<Rightarrow> bool \<Rightarrow> error + entry list" where
  "fromPaths paths sortAndExpandOpt = ManualTree_new (map fromPath paths) sortAndExpandOpt"

definition addCommand :: "entry \<Rightarrow> change" where
  "addCommand e = (if isDirectory e then Mkdir else Create, entryRelativePath e, e)"

definition removeCommand :: "entry \<Rightarrow> change" where
  "removeCommand e = (if isDirectory e then Rmdir else Unlink, entryRelativePath e, e)"

definition updateCommand :: "entry \<Rightarrow> change" where
  "updateCommand e = (Change, entryRelativePath e, e)"

text \<open>Unary plus on an \<open>mtime\<close>: \<open>None\<close> is \<open>NaN\<close>, which \<open>===\<close> never finds equal.\<close>

fun toNumber :: "mtime_value \<Rightarrow> int option" where
  "toNumber (MNumber n) = Some n"
| "toNumber (MDate t) = Some t"
| "toNumber MUndefined = None"

definition numberStrictEq :: "int option \<Rightarrow> int option \<Rightarrow> bool" where
  "numberStrictEq a b = (case a of None \<Rightarrow> False | Some x \<Rightarrow> (case b of None \<Rightarrow> False | Some y \<Rightarrow> x = y))"

definition defaultIsEqual :: "entry \<Rightarrow> entry \<Rightarrow> bool" where
  "defaultIsEqual entryA entryB =
     (if isDirectory entryA \<and> isDirectory entryB then True
      else fsize entryA = fsize entryB \<and>
           numberStrictEq (toNumber (mtime entryA)) (toNumber (mtime entryB)) \<and>
           mode entryA = mode entryB)"

text \<open>
  The walk of \<open>calculatePatch\<close> over \<open>ours\<close> and \<open>theirs\<close>: the pair of the removals and
  the additions, each in the order of the pushes.  The two clean-up loops are the first
  two equations.
\<close>

fun calculatePatch_walk ::
  "(entry \<Rightarrow> entry \<Rightarrow> bool) \<Rightarrow> entry list \<Rightarrow> entry list \<Rightarrow> change list \<times> change list" where
  "calculatePatch_walk isEqual [] theirs = ([], map addCommand theirs)"
| "calculatePatch_walk isEqual (x # xs) [] = (map removeCommand (x # xs), [])"
| "calculatePatch_walk isEqual (x # xs) (y # ys) =
     (let xpath = entryRelativePath x; ypath = entryRelativePath y in
      if xpath < ypath then
        (let (removals, additions) = calculatePatch_walk isEqual xs (y # ys)
         in (removeCommand x # removals, additions))
      else if xpath > ypath then
        (let (removals, additions) = calculatePatch_walk isEqual (x # xs) ys
         in (removals, addCommand y # additions))
      else
        (let (removals, additions) = calculatePatch_walk isEqual xs ys in
         if \<not> isEqual x y then
           (if isFile x = isFile y then (removals, updateCommand y # additions)
            else (removeCommand x # removals, addCommand y # additions))
         else (removals, additions)))"

text \<open>\<open>removals.reverse().concat(additions)\<close>.\<close>

definition calculatePatch :: "entry list \<Rightarrow> entry list \<Rightarrow> (entry \<Rightarrow> entry \<Rightarrow> bool) \<Rightarrow> change list" where
  "calculatePatch ours theirs isEqual =
     (let (removals, additions) = calculatePatch_walk isEqual ours theirs
      in rev removals @ additions)"

definition changePath :: "change \<Rightarrow> string" where
  "changePath c = fst (snd c)"

text \<open>
  An entry as \<open>walkSync.entries\<close> yields it and as the tests hand it to
  \<open>ManualTree.fromEntries\<close>: a plain object, so the path of a directory keeps its
  trailing slash.
\<close>

definition walkSyncEntry :: "string \<Rightarrow> nat \<Rightarrow> entry" where
  "walkSyncEntry p md =
     \<lparr> relativePath = p, fsize = Some 0, mtime = MNumber 0, mode = md, checksum = None,
       symlink = None, linkDir = False \<rparr>"

section \<open>Paths\<close>




text \<open>\<open>String.prototype.split('/')\<close> and \<open>Array.prototype.join('/')\<close>.\<close>

fun split_sep :: "string \<Rightarrow> string list" where
  "split_sep [] = [[]]"
| "split_sep (c # cs) =
     (if c = CHR ''/'' then [] # split_sep cs
      else (case split_sep cs of [] \<Rightarrow> [[c]] | s # ss \<Rightarrow> (c # s) # ss))"

fun join_sep :: "string list \<Rightarrow> string" where
  "join_sep [] = []"
| "join_sep [s] = s"
| "join_sep (s # ss) = s @ ''/'' @ join_sep ss"



text \<open>
  Node's \<open>path.join\<close> on POSIX (an external library): the non-empty arguments joined by
  \<open>/\<close> and normalised.  \<open>joinPaths\<close> turns its \<open>.\<close> into the empty string.
\<close>

fun normalizeString :: "bool \<Rightarrow> string list \<Rightarrow> string list \<Rightarrow> string list" where
  "normalizeString allowAboveRoot res [] = res"
| "normalizeString allowAboveRoot res (seg # segs) =
     (if seg = [] \<or> seg = ''.'' then normalizeString allowAboveRoot res segs
      else if seg = ''..'' then
        (if res \<noteq> [] \<and> last res \<noteq> ''..'' then normalizeString allowAboveRoot (butlast res) segs
         else if allowAboveRoot then normalizeString allowAboveRoot (res @ [''..'']) segs
         else normalizeString allowAboveRoot res segs)
      else normalizeString allowAboveRoot (res @ [seg]) segs)"

definition path_normalize :: "string \<Rightarrow> string" where
  "path_normalize p =
     (if p = [] then ''.''
      else
        (let isAbsolute = (hd p = CHR ''/'');
             trailingSeparator = (last p = CHR ''/'');
             q = join_sep (normalizeString (\<not> isAbsolute) [] (split_sep p))
         in if q = [] then (if isAbsolute then ''/'' else if trailingSeparator then ''./'' else ''.'')
            else (let q1 = (if trailingSeparator then q @ ''/'' else q)
                  in if isAbsolute then CHR ''/'' # q1 else q1)))"

definition path_join :: "string list \<Rightarrow> string" where
  "path_join args = (let joined = join_sep (filter (\<lambda>a. a \<noteq> []) args)
                     in if joined = [] then ''.'' else path_normalize joined)"

definition joinPaths :: "string list \<Rightarrow> string" where
  "joinPaths args = (let result = path_join args in if result = ''.'' then [] else result)"

section \<open>Binary search (lib/shared.js)\<close>

text \<open>
  The loop of \<open>searchByRelativePath\<close>: \<open>Inl middle\<close> when the path is found, \<open>Inr (low, high)\<close>
  when the loop ends.  The indices stay within the array.
\<close>

function search_loop :: "entry list \<Rightarrow> string \<Rightarrow> int \<Rightarrow> int \<Rightarrow> int + int \<times> int" where
  "search_loop entries p low high =
     (if low \<le> high then
        (let middle = low + (high - low) div 2;
             middleRelativePath = relativePath (entries ! nat middle)
         in if p = middleRelativePath then Inl middle
            else if p < middleRelativePath then search_loop entries p low (middle - 1)
            else search_loop entries p (middle + 1) high)
      else Inr (low, high))"
  by pat_completeness auto
termination
  by (relation "measure (\<lambda>(entries, p, low, high). nat (high - low + 1))") auto

definition searchByRelativePath :: "entry list \<Rightarrow> string \<Rightarrow> bool \<Rightarrow> int" where
  "searchByRelativePath entries p closest =
     (if entries = [] then -1
      else if p < relativePath (entries ! 0) then -1
      else if p > relativePath (entries ! (length entries - 1)) then
        (if closest then int (length entries) - 1 else -1)
      else
        (case search_loop entries p 0 (int (length entries) - 1) of
           Inl middle \<Rightarrow> middle
         | Inr (low, high) \<Rightarrow>
             if closest then
               (if low \<ge> int (length entries) then high
                else if low < 0 then -1
                else if relativePath (entries ! nat low) < p then low else low - 1)
             else -1))"

section \<open>WritableTree\<close>

datatype tree_state = Started | Stopped

text \<open>The calls to the file system, in order; \<open>Cleanup\<close> is \<open>_cleanup\<close> of a linked projection.\<close>

datatype io_event =
    FsUnlink string
  | FsWriteFile string string
  | Cleanup nat

text \<open>
  The tracker: the doubly linked list from \<open>_firstChange\<close> to \<open>_lastChange\<close> as the list of
  its nodes, each with an identity, and \<open>_changeHash[operation][path]\<close>, which holds a node.
\<close>

record wtree =
  entries :: "entry list"
  root :: string
  state :: tree_state
  changeNodes :: "(nat \<times> change) list"
  changeHash :: "operation \<times> string \<Rightarrow> nat option"
  nextNode :: nat
  io :: "io_event list"

text \<open>
  What a tree reads from outside itself: the checksum library, \<open>Date.now()\<close> (an argument
  of the operations), and the trees its links point to, by their handles.
\<close>

datatype found = FoundRoot | FoundEntry entry | NotFound

record env =
  md5hex :: "string \<Rightarrow> string"
  treeFind :: "nat \<Rightarrow> string \<Rightarrow> bool \<Rightarrow> found"
  linkTargetEntry :: "nat \<Rightarrow> string \<Rightarrow> entry"
  treeEntries :: "nat \<Rightarrow> entry list"
  treeChanges :: "nat \<Rightarrow> change list"

definition trackedChanges :: "wtree \<Rightarrow> change list" where
  "trackedChanges t = map snd (changeNodes t)"

definition start :: "wtree \<Rightarrow> wtree" where
  "start t = t\<lparr>changeNodes := [], changeHash := (\<lambda>k. None), state := Started\<rparr>"

definition stop :: "wtree \<Rightarrow> wtree" where
  "stop t = t\<lparr>state := Stopped\<rparr>"



definition linkTree :: "entry \<Rightarrow> nat option" where
  "linkTree e = (case symlink e of Some (Internal tr tg) \<Rightarrow> Some tr | _ \<Rightarrow> None)"



definition insertEntry :: "entry \<Rightarrow> wtree \<Rightarrow> wtree" where
  "insertEntry e t =
     (let index = searchByRelativePath (entries t) (relativePath e) True
      in if index = -1 then t\<lparr>entries := e # entries t\<rparr>
         else if relativePath (entries t ! nat index) = relativePath e
           then t\<lparr>entries := (entries t)[nat index := e]\<rparr>
         else t\<lparr>entries := take (nat (index + 1)) (entries t) @ e # drop (nat (index + 1)) (entries t)\<rparr>)"

definition removeEntry :: "entry \<Rightarrow> wtree \<Rightarrow> wtree" where
  "removeEntry e t =
     (let index = searchByRelativePath (entries t) (relativePath e) False
      in if index \<noteq> -1
         then t\<lparr>entries := take (nat index) (entries t) @ drop (nat index + 1) (entries t)\<rparr>
         else t)"


text \<open>\<open>_untrack\<close>: the node the hash holds is unlinked from the list.\<close>

definition untrack :: "operation \<Rightarrow> string \<Rightarrow> wtree \<Rightarrow> bool \<times> wtree" where
  "untrack operation normalizedPath t =
     (case changeHash t (operation, normalizedPath) of
        Some node \<Rightarrow>
          (True, t\<lparr>changeHash := (changeHash t)((operation, normalizedPath) := None),
                     changeNodes := filter (\<lambda>n. fst n \<noteq> node) (changeNodes t)\<rparr>)
      | None \<Rightarrow> (False, t))"

text \<open>The end of \<open>_track\<close>: a new node at the end of the list, and in the hash.\<close>

definition appendChange :: "operation \<Rightarrow> entry \<Rightarrow> wtree \<Rightarrow> wtree" where
  "appendChange operation e t =
     t\<lparr>changeHash := (changeHash t)((operation, relativePath e) \<mapsto> nextNode t),
        changeNodes := changeNodes t @ [(nextNode t, (operation, relativePath e, e))],
        nextNode := nextNode t + 1\<rparr>"

fun track :: "operation \<Rightarrow> entry \<Rightarrow> wtree \<Rightarrow> wtree" where
  "track Create e t =
     (let (found, t1) = untrack Unlink (relativePath e) t
      in appendChange (if found then Change else Create) e t1)"
| "track Change e t =
     (let (found1, t1) = untrack Change (relativePath e) t;
          (found2, t2) = untrack Create (relativePath e) t1
      in appendChange (if found2 then Create else Change) e t2)"
| "track Mkdir e t =
     (let (found, t1) = untrack Rmdir (relativePath e) t
      in if found then t1 else appendChange Mkdir e t1)"
| "track Rmdir e t =
     (let (found, t1) = untrack Mkdir (relativePath e) t
      in if found then t1 else appendChange Rmdir e t1)"
| "track Unlink e t =
     (let (found1, t1) = untrack Change (relativePath e) t;
          (found2, t2) = untrack Create (relativePath e) t1
      in if found2 then t2 else appendChange Unlink e t2)"

text \<open>\<open>Array.prototype.sort\<close> with a comparator (stable).\<close>

fun insertBy :: "('a \<Rightarrow> 'a \<Rightarrow> int) \<Rightarrow> 'a \<Rightarrow> 'a list \<Rightarrow> 'a list" where
  "insertBy cmp x [] = [x]"
| "insertBy cmp x (y # ys) = (if cmp x y \<le> 0 then x # y # ys else y # insertBy cmp x ys)"

definition sortBy :: "('a \<Rightarrow> 'a \<Rightarrow> int) \<Rightarrow> 'a list \<Rightarrow> 'a list" where
  "sortBy cmp xs = foldr (insertBy cmp) xs []"

definition isDirectoryLink :: "entry \<Rightarrow> bool" where
  "isDirectoryLink e = (isSymbolicLink e \<and> isDirectory e)"

text \<open>
  \<open>changes()\<close>: the tracked changes, each directory link among them followed by the entries
  of the linked tree as additions; then the changes of the linked trees not met so far; sorted.
\<close>

definition linkedAdditions :: "env \<Rightarrow> change \<Rightarrow> change list" where
  "linkedAdditions ev c =
     (case linkTree (snd (snd c)) of
        Some tr \<Rightarrow>
          (if isDirectoryLink (snd (snd c)) then
             map (\<lambda>entry. (if isDirectory entry then Mkdir else Create,
                            joinPaths [fst (snd c), relativePath entry],
                            clone entry (joinPaths [fst (snd c), relativePath entry])))
               (treeEntries ev tr)
           else [])
      | None \<Rightarrow> [])"

definition linkedChanges :: "env \<Rightarrow> string list \<Rightarrow> entry \<Rightarrow> change list" where
  "linkedChanges ev traversedSymlinks e =
     (case linkTree e of
        Some tr \<Rightarrow>
          (if isDirectoryLink e \<and> relativePath e \<notin> set traversedSymlinks then
             map (\<lambda>c. (fst c, joinPaths [relativePath e, fst (snd c)],
                        clone (snd (snd c)) (joinPaths [relativePath e, fst (snd c)])))
               (treeChanges ev tr)
           else [])
      | None \<Rightarrow> [])"

definition changes :: "env \<Rightarrow> wtree \<Rightarrow> change list" where
  "changes ev t =
     (let tracked = trackedChanges t;
          traversedSymlinks = map (\<lambda>c. fst (snd c)) (filter (\<lambda>c. isDirectoryLink (snd (snd c))) tracked);
          combinedChanges =
            concat (map (\<lambda>c. c # linkedAdditions ev c) tracked) @
            concat (map (linkedChanges ev traversedSymlinks) (entries t))
      in sortBy compareChanges combinedChanges)"


section \<open>Well-formed trees\<close>



text \<open>The entry that \<open>writeFileSync\<close> stores.\<close>

definition writtenEntry :: "env \<Rightarrow> int \<Rightarrow> string \<Rightarrow> string \<Rightarrow> nat \<Rightarrow> entry" where
  "writtenEntry ev now p content md =
     Entry_new p (Some (int (length content))) (MNumber now) md (Some (md5hex ev content))"



section \<open>Properties of the diff\<close>

lemma changePath_commands [simp]:
  "changePath (removeCommand e) = entryRelativePath e"
  "changePath (addCommand e) = entryRelativePath e"
  "changePath (updateCommand e) = entryRelativePath e"
  by (simp_all add: changePath_def removeCommand_def addCommand_def updateCommand_def)

lemma isRemove_commands [simp]:
  "isRemove (removeCommand e)"
  "\<not> isRemove (addCommand e)"
  "\<not> isRemove (updateCommand e)"
  by (simp_all add: isRemove_def removeCommand_def addCommand_def updateCommand_def)

lemma walk_Cons_fst:
  "fst (calculatePatch_walk isEqual (x # xs) (y # ys)) =
     (if entryRelativePath x < entryRelativePath y
        then removeCommand x # fst (calculatePatch_walk isEqual xs (y # ys))
      else if entryRelativePath y < entryRelativePath x
        then fst (calculatePatch_walk isEqual (x # xs) ys)
      else if \<not> isEqual x y \<and> isFile x \<noteq> isFile y
        then removeCommand x # fst (calculatePatch_walk isEqual xs ys)
      else fst (calculatePatch_walk isEqual xs ys))"
  by (simp add: Let_def case_prod_beta)

lemma walk_Cons_snd:
  "snd (calculatePatch_walk isEqual (x # xs) (y # ys)) =
     (if entryRelativePath x < entryRelativePath y
        then snd (calculatePatch_walk isEqual xs (y # ys))
      else if entryRelativePath y < entryRelativePath x
        then addCommand y # snd (calculatePatch_walk isEqual (x # xs) ys)
      else if isEqual x y then snd (calculatePatch_walk isEqual xs ys)
      else if isFile x = isFile y then updateCommand y # snd (calculatePatch_walk isEqual xs ys)
      else addCommand y # snd (calculatePatch_walk isEqual xs ys))"
  by (simp add: Let_def case_prod_beta)

declare calculatePatch_walk.simps(3) [simp del]






lemma walk_remove_or_matched:
  "x \<in> set ours \<Longrightarrow>
   removeCommand x \<in> set (fst (calculatePatch_walk isEqual ours theirs)) \<or>
   (\<exists>y\<in>set theirs. entryRelativePath y = entryRelativePath x \<and> (isEqual x y \<or> isFile x = isFile y))"
proof (induction isEqual ours theirs rule: calculatePatch_walk.induct)
  case (1 isEqual theirs)
  then show ?case by simp
next
  case (2 isEqual x' xs)
  then show ?case by auto
next
  case (3 isEqual x' xs y ys)
  note IH1 = "3.IH"(1) [OF refl refl]
  note IH2 = "3.IH"(2) [OF refl refl]
  note IH3 = "3.IH"(3) [OF refl refl]
  consider (lt) "entryRelativePath x' < entryRelativePath y"
    | (gt) "\<not> entryRelativePath x' < entryRelativePath y" "entryRelativePath y < entryRelativePath x'"
    | (eq) "\<not> entryRelativePath x' < entryRelativePath y" "\<not> entryRelativePath y < entryRelativePath x'"
    by blast
  then show ?case
  proof cases
    case lt
    show ?thesis
    proof (cases "x = x'")
      case True
      then show ?thesis using lt by (simp add: walk_Cons_fst)
    next
      case False
      with "3.prems" have "x \<in> set xs" by simp
      from IH1 [OF lt this] show ?thesis using lt by (auto simp: walk_Cons_fst)
    qed
  next
    case gt
    from IH2 [OF gt "3.prems"] show ?thesis using gt by (auto simp: walk_Cons_fst)
  next
    case eq
    then have same: "entryRelativePath y = entryRelativePath x'" by simp
    show ?thesis
    proof (cases "x = x'")
      case True
      then show ?thesis using eq same by (auto simp: walk_Cons_fst)
    next
      case False
      with "3.prems" have "x \<in> set xs" by simp
      from IH3 [OF eq this] show ?thesis using eq by (auto simp: walk_Cons_fst)
    qed
  qed
qed

lemma walk_add_or_matched:
  "y \<in> set theirs \<Longrightarrow>
   addCommand y \<in> set (snd (calculatePatch_walk isEqual ours theirs)) \<or>
   (\<exists>x\<in>set ours. entryRelativePath x = entryRelativePath y \<and> (isEqual x y \<or> isFile x = isFile y))"
proof (induction isEqual ours theirs rule: calculatePatch_walk.induct)
  case (1 isEqual theirs)
  then show ?case by simp
next
  case (2 isEqual x xs)
  then show ?case by simp
next
  case (3 isEqual x xs y' ys)
  note IH1 = "3.IH"(1) [OF refl refl]
  note IH2 = "3.IH"(2) [OF refl refl]
  note IH3 = "3.IH"(3) [OF refl refl]
  consider (lt) "entryRelativePath x < entryRelativePath y'"
    | (gt) "\<not> entryRelativePath x < entryRelativePath y'" "entryRelativePath y' < entryRelativePath x"
    | (eq) "\<not> entryRelativePath x < entryRelativePath y'" "\<not> entryRelativePath y' < entryRelativePath x"
    by blast
  then show ?case
  proof cases
    case lt
    from IH1 [OF lt "3.prems"] show ?thesis using lt by (auto simp: walk_Cons_snd)
  next
    case gt
    show ?thesis
    proof (cases "y = y'")
      case True
      then show ?thesis using gt by (simp add: walk_Cons_snd)
    next
      case False
      with "3.prems" have "y \<in> set ys" by simp
      from IH2 [OF gt this] show ?thesis using gt by (auto simp: walk_Cons_snd)
    qed
  next
    case eq
    then have same: "entryRelativePath x = entryRelativePath y'" by simp
    show ?thesis
    proof (cases "y = y'")
      case True
      then show ?thesis using eq same by (auto simp: walk_Cons_snd)
    next
      case False
      with "3.prems" have "y \<in> set ys" by simp
      from IH3 [OF eq this] show ?thesis using eq by (auto simp: walk_Cons_snd)
    qed
  qed
qed




lemmas entry_eval = fromPath_def Entry_new_def DIRECTORY_MODE_def FILE_MODE_def
  chompLeadingAndTrailingSeparator_def isSep_def isDirectory_def isFile_def
  entryRelativePath_def chompSeparator_def walkSyncEntry_def








text \<open>
  Claim C6.  \<open>defaultIsEqual\<close> is true whenever both entries are directories, whatever their
  metadata; otherwise it is true exactly when the sizes are equal, the \<open>mtime\<close>s are equal as
  numbers (after unary plus) and the modes are equal.
\<close>

theorem defaultIsEqual_spec:
  "(isDirectory entryA \<and> isDirectory entryB \<longrightarrow> defaultIsEqual entryA entryB) \<and>
   (\<not> (isDirectory entryA \<and> isDirectory entryB) \<longrightarrow>
      defaultIsEqual entryA entryB =
        (fsize entryA = fsize entryB \<and>
         numberStrictEq (toNumber (mtime entryA)) (toNumber (mtime entryB)) \<and>
         mode entryA = mode entryB))"
  by (simp add: defaultIsEqual_def)

text \<open>
  Two directories that differ in every field are equal; a date and a number of the same epoch
  are equal; a different epoch is not.
\<close>

theorem defaultIsEqual_spec_witness:
  "defaultIsEqual (Entry_new ''d'' None (MNumber 1) 16877 None) (Entry_new ''e'' (Some 4) (MDate 2) 16895 None) \<and>
   defaultIsEqual (Entry_new ''f'' (Some 3) (MDate 7) 33188 None) (Entry_new ''g'' (Some 3) (MNumber 7) 33188 None) \<and>
   \<not> defaultIsEqual (Entry_new ''f'' (Some 3) (MDate 7) 33188 None) (Entry_new ''f'' (Some 3) (MNumber 8) 33188 None)"
  using defaultIsEqual_spec [of "Entry_new ''d'' None (MNumber 1) 16877 None" "Entry_new ''e'' (Some 4) (MDate 2) 16895 None"]
    defaultIsEqual_spec [of "Entry_new ''f'' (Some 3) (MDate 7) 33188 None" "Entry_new ''g'' (Some 3) (MNumber 7) 33188 None"]
    defaultIsEqual_spec [of "Entry_new ''f'' (Some 3) (MDate 7) 33188 None" "Entry_new ''f'' (Some 3) (MNumber 8) 33188 None"]
  by (simp add: numberStrictEq_def entry_eval)

text \<open>
  Claim C7.  Let the paths of each tree be unique.  When an entry \<open>x\<close> of \<open>ours\<close> and an entry
  \<open>y\<close> of \<open>theirs\<close> have the same path, are not equal under \<open>isEqual\<close>, and one is a file and
  the other a directory, the patch holds the remove of \<open>x\<close> and, after it, the add of \<open>y\<close>.
  The example of the specification (S3) is the second conjunct.
\<close>

theorem kind_change_remove_then_add:
  "(\<forall>ours theirs isEqual x y.
      distinct (map entryRelativePath ours) \<and> distinct (map entryRelativePath theirs) \<and>
      x \<in> set ours \<and> y \<in> set theirs \<and> entryRelativePath x = entryRelativePath y \<and>
      \<not> isEqual x y \<and> isFile x \<noteq> isFile y \<longrightarrow>
      (\<exists>pre mid post.
         calculatePatch ours theirs isEqual = pre @ removeCommand x # mid @ addCommand y # post)) \<and>
   calculatePatch [fromPath ''subdir1''] [fromPath ''subdir1/'', fromPath ''subdir1/foo''] defaultIsEqual =
     [(Unlink, ''subdir1'', fromPath ''subdir1''), (Mkdir, ''subdir1'', fromPath ''subdir1/''),
      (Create, ''subdir1/foo'', fromPath ''subdir1/foo'')]"
proof (intro conjI allI impI)
  fix ours theirs isEqual x y
  assume h: "distinct (map entryRelativePath ours) \<and> distinct (map entryRelativePath theirs) \<and>
      x \<in> set ours \<and> y \<in> set theirs \<and> entryRelativePath x = entryRelativePath y \<and>
      \<not> isEqual x y \<and> isFile x \<noteq> isFile y"
  let ?w = "calculatePatch_walk isEqual ours theirs"
  have uy: "y' = y" if "y' \<in> set theirs" "entryRelativePath y' = entryRelativePath x" for y'
    using that h by (metis distinct_map inj_onD)
  have ux: "x' = x" if "x' \<in> set ours" "entryRelativePath x' = entryRelativePath y" for x'
    using that h by (metis distinct_map inj_onD)
  have "removeCommand x \<in> set (fst ?w)"
    using walk_remove_or_matched [of x ours isEqual theirs] h uy by blast
  then have "removeCommand x \<in> set (rev (fst ?w))" by simp
  then obtain pre m1 where r: "rev (fst ?w) = pre @ removeCommand x # m1"
    by (meson split_list)
  have "addCommand y \<in> set (snd ?w)"
    using walk_add_or_matched [of y theirs isEqual ours] h ux by blast
  then obtain m2 post where a: "snd ?w = m2 @ addCommand y # post"
    by (meson split_list)
  have "calculatePatch ours theirs isEqual = pre @ removeCommand x # (m1 @ m2) @ addCommand y # post"
    by (simp add: calculatePatch_def case_prod_beta r a)
  then show "\<exists>pre mid post.
         calculatePatch ours theirs isEqual = pre @ removeCommand x # mid @ addCommand y # post"
    by blast
next
  show "calculatePatch [fromPath ''subdir1''] [fromPath ''subdir1/'', fromPath ''subdir1/foo''] defaultIsEqual =
     [(Unlink, ''subdir1'', fromPath ''subdir1''), (Mkdir, ''subdir1'', fromPath ''subdir1/''),
      (Create, ''subdir1/foo'', fromPath ''subdir1/foo'')]"
    by (simp add: calculatePatch_def calculatePatch_walk.simps(3) removeCommand_def addCommand_def
        defaultIsEqual_def numberStrictEq_def entry_eval Let_def)
qed

text \<open>The theorem at the trees of S3.\<close>

theorem kind_change_remove_then_add_witness:
  "distinct (map entryRelativePath [fromPath ''subdir1'']) \<and>
   distinct (map entryRelativePath [fromPath ''subdir1/'', fromPath ''subdir1/foo'']) \<and>
   entryRelativePath (fromPath ''subdir1'') = entryRelativePath (fromPath ''subdir1/'') \<and>
   \<not> defaultIsEqual (fromPath ''subdir1'') (fromPath ''subdir1/'') \<and>
   isFile (fromPath ''subdir1'') \<noteq> isFile (fromPath ''subdir1/'') \<and>
   (\<exists>pre mid post.
      calculatePatch [fromPath ''subdir1''] [fromPath ''subdir1/'', fromPath ''subdir1/foo'']
        defaultIsEqual =
      pre @ removeCommand (fromPath ''subdir1'') # mid @ addCommand (fromPath ''subdir1/'') # post)"
proof -
  have h: "distinct (map entryRelativePath [fromPath ''subdir1'']) \<and>
      distinct (map entryRelativePath [fromPath ''subdir1/'', fromPath ''subdir1/foo'']) \<and>
      fromPath ''subdir1'' \<in> set [fromPath ''subdir1''] \<and>
      fromPath ''subdir1/'' \<in> set [fromPath ''subdir1/'', fromPath ''subdir1/foo''] \<and>
      entryRelativePath (fromPath ''subdir1'') = entryRelativePath (fromPath ''subdir1/'') \<and>
      \<not> defaultIsEqual (fromPath ''subdir1'') (fromPath ''subdir1/'') \<and>
      isFile (fromPath ''subdir1'') \<noteq> isFile (fromPath ''subdir1/'')"
    by (simp add: defaultIsEqual_def entry_eval)
  from kind_change_remove_then_add have
    "\<exists>pre mid post.
      calculatePatch [fromPath ''subdir1''] [fromPath ''subdir1/'', fromPath ''subdir1/foo'']
        defaultIsEqual =
      pre @ removeCommand (fromPath ''subdir1'') # mid @ addCommand (fromPath ''subdir1/'') # post"
    using h by blast
  with h show ?thesis by blast
qed
section \<open>The constructor of ManualTree\<close>

text \<open>
  Without the option \<open>sortAndExpand\<close> the constructor validates: it returns the tree exactly
  when the paths are strictly ascending, and raises otherwise.
\<close>

lemma validateSortedUnique_loop_iff:
  "validateSortedUnique_loop i prev es = Inr () \<longleftrightarrow> sorted_wrt (<) (map relativePath (prev # es))"
proof (induction es arbitrary: i prev)
  case Nil
  show ?case by simp
next
  case (Cons cur rest)
  have "sorted_wrt (<) (map relativePath (prev # cur # rest)) \<longleftrightarrow>
        relativePath prev < relativePath cur \<and> sorted_wrt (<) (map relativePath (cur # rest))"
    by (auto intro: less_trans)
  with Cons [of "i + 1" cur] show ?case by simp
qed

lemma validateSortedUnique_iff:
  "validateSortedUnique es = Inr () \<longleftrightarrow> sorted_wrt (<) (map relativePath es)"
  by (cases es) (simp_all add: validateSortedUnique_def validateSortedUnique_loop_iff)

lemma ManualTree_new_validates:
  "(\<exists>err. ManualTree_new es False = Inl err) \<longleftrightarrow> \<not> sorted_wrt (<) (map relativePath es)"
  "ManualTree_new es False = Inr es' \<longleftrightarrow> sorted_wrt (<) (map relativePath es) \<and> es' = es"
proof -
  show "(\<exists>err. ManualTree_new es False = Inl err) \<longleftrightarrow> \<not> sorted_wrt (<) (map relativePath es)"
    unfolding validateSortedUnique_iff [symmetric]
    by (cases "validateSortedUnique es") (simp_all add: ManualTree_new_def)
  show "ManualTree_new es False = Inr es' \<longleftrightarrow> sorted_wrt (<) (map relativePath es) \<and> es' = es"
    unfolding validateSortedUnique_iff [symmetric]
    by (cases "validateSortedUnique es") (auto simp: ManualTree_new_def)
qed

text \<open>
  Claim C2.  With the option \<open>sortAndExpand\<close> the entries of the tree need not be sorted:
  for the paths \<open>a.js\<close> and \<open>a/b.js\<close> the sort keeps \<open>a.js\<close> first, and the implied
  directory \<open>a\<close> is inserted before \<open>a/b.js\<close>, that is after \<open>a.js\<close>, although
  \<open>a\<close> is less than \<open>a.js\<close>.  The entries that result are \<open>a.js\<close>, \<open>a\<close>, \<open>a/b.js\<close>,
  which \<open>validateSortedUnique\<close> itself refuses.
\<close>

theorem sortAndExpand_not_sorted:
  "fromPaths [''a.js'', ''a/b.js''] True = Inr (map fromPath [''a.js'', ''a/'', ''a/b.js'']) \<and>
   map relativePath (map fromPath [''a.js'', ''a/'', ''a/b.js'']) = [''a.js'', ''a'', ''a/b.js''] \<and>
   \<not> sorted_wrt (<) [''a.js'', ''a'', ''a/b.js''] \<and>
   validateSortedUnique (map fromPath [''a.js'', ''a/'', ''a/b.js'']) = Inl (NotSortedUnique 0)"
  by (simp add: fromPaths_def ManualTree_new_def sortAndExpand_def commonPrefix_def basename_def
        computeImpliedEntries_def validateSortedUnique_def Let_def entry_eval)

section \<open>The binary search on sorted entries\<close>

declare search_loop.simps [simp del]









section \<open>Paths below an entry\<close>







section \<open>The common errors\<close>







section \<open>Insertion and removal\<close>




section \<open>The operations on a well-formed tree\<close>






lemma insertEntry_fields [simp]:
  "changeNodes (insertEntry e t) = changeNodes t"
  "changeHash (insertEntry e t) = changeHash t"
  "nextNode (insertEntry e t) = nextNode t"
  "state (insertEntry e t) = state t"
  "io (insertEntry e t) = io t"
  "root (insertEntry e t) = root t"
  by (simp_all add: insertEntry_def Let_def)

lemma removeEntry_fields [simp]:
  "changeNodes (removeEntry e t) = changeNodes t"
  "changeHash (removeEntry e t) = changeHash t"
  "nextNode (removeEntry e t) = nextNode t"
  "state (removeEntry e t) = state t"
  "io (removeEntry e t) = io t"
  "root (removeEntry e t) = root t"
  by (simp_all add: removeEntry_def Let_def)

lemma appendChange_fields [simp]:
  "changeNodes (appendChange operation e t) = changeNodes t @ [(nextNode t, (operation, relativePath e, e))]"
  "changeHash (appendChange operation e t) = (changeHash t)((operation, relativePath e) \<mapsto> nextNode t)"
  "nextNode (appendChange operation e t) = nextNode t + 1"
  "state (appendChange operation e t) = state t"
  "io (appendChange operation e t) = io t"
  "root (appendChange operation e t) = root t"
  "entries (appendChange operation e t) = entries t"
  by (simp_all add: appendChange_def)

lemma track_fields [simp]:
  "state (track operation e t) = state t"
  "io (track operation e t) = io t"
  "root (track operation e t) = root t"
  "entries (track operation e t) = entries t"
  by (cases operation; simp add: untrack_def Let_def split: option.splits)+

lemma writtenEntry_fields [simp]:
  "md AND 61440 \<noteq> 16384 \<Longrightarrow> relativePath (writtenEntry ev now p content md) = p"
  "symlink (writtenEntry ev now p content md) = None"
  "checksum (writtenEntry ev now p content md) = Some (md5hex ev content)"
  "mode (writtenEntry ev now p content md) = md"
  by (simp_all add: writtenEntry_def Entry_new_def)












section \<open>Evaluation on the tree of the tests\<close>






section \<open>An unlink followed by a write\<close>

declare track.simps [simp del]





section \<open>Two writes of the same content\<close>






end
